theory Spec2Isabelle
  imports
    Complex_Main
    "HOL-Library.Word"
    "HOL-Library.Sublist"
    "HOL-Library.Mapping"
    "HOL-Library.AList_Mapping"
begin

section \<open>Go values: strings, ints, maps, float64\<close>

text \<open>
  The development embeds \<^verbatim>\<open>resources/model-pricing/price.go\<close> (package
  \<^verbatim>\<open>modelpricing\<close>) and the retry wrapper of package \<^verbatim>\<open>services\<close>.

  \<^item> A Go \<^verbatim>\<open>string\<close> is a byte string: \<^typ>\<open>string\<close>, one \<^typ>\<open>char\<close> per byte.
  \<^item> A Go \<^verbatim>\<open>int\<close> is a 64-bit two's complement integer: \<^typ>\<open>64 word\<close>, with
    \<open>+\<close> and \<open>-\<close> wrapping and the comparisons signed (\<open><s\<close>).
  \<^item> A Go \<^verbatim>\<open>map[K]V\<close> is a \<^typ>\<open>('k, 'v) mapping\<close>. A \<^verbatim>\<open>for ... range m\<close> loop visits
    the keys of \<open>m\<close> in an order the language leaves unspecified and that changes from
    one loop to the next; every function with such a loop takes the order of that
    one execution as a further argument, a list of keys.
  \<^item> \<^verbatim>\<open>float64\<close> is kept abstract: a type variable \<open>'f\<close> and the operations on it that
    the code uses, collected in a record. Nothing is assumed about them, so what is
    proved holds for IEEE 754 binary64 as for any other interpretation.
\<close>

type_synonym go_int = "64 word"

subsection \<open>Package strings\<close>

definition lower_byte :: "char \<Rightarrow> char" where
  "lower_byte c =
     (case map_of (zip ''ABCDEFGHIJKLMNOPQRSTUVWXYZ'' ''abcdefghijklmnopqrstuvwxyz'') c of
        Some l \<Rightarrow> l
      | None \<Rightarrow> c)"

text \<open>
  \<^verbatim>\<open>strings.ToLower\<close> on ASCII text, where it maps \<^verbatim>\<open>A-Z\<close> to \<^verbatim>\<open>a-z\<close> byte by byte. Bytes
  from \<^verbatim>\<open>0x80\<close> on are left as they are (Go decodes them as UTF-8 and applies the Unicode
  case mapping): model names and pricing keys are ASCII.
\<close>

definition ToLower :: "string \<Rightarrow> string" where
  "ToLower s = map lower_byte s"

text \<open>\<^verbatim>\<open>strings.Contains(s, substr)\<close>: \<open>substr\<close> occurs in \<open>s\<close> as a contiguous block.\<close>

fun Contains :: "string \<Rightarrow> string \<Rightarrow> bool" where
  "Contains [] substr = (substr = [])"
| "Contains (c # s) substr = (prefix substr (c # s) \<or> Contains s substr)"

definition HasPrefix :: "string \<Rightarrow> string \<Rightarrow> bool" where
  "HasPrefix s pre = prefix pre s"

definition TrimPrefix :: "string \<Rightarrow> string \<Rightarrow> string" where
  "TrimPrefix s pre = (if HasPrefix s pre then drop (length pre) s else s)"

text \<open>
  \<^verbatim>\<open>nameReplacer = strings.NewReplacer("-", "", "_", "", ".", "", ":", "", "/", "", " ", "")\<close>:
  every old string is one byte and is replaced by the empty string.
\<close>

definition nameReplacer :: "string \<Rightarrow> string" where
  "nameReplacer s = filter (\<lambda>c. c \<notin> set ''-_.:/ '') s"

subsection \<open>The data model of price.go\<close>

record 'f PricingEntry =
  InputCostPerToken :: 'f
  OutputCostPerToken :: 'f
  CacheCreationInputTokenCost :: 'f
  CacheCreationInputTokenCostAbove1Hr :: 'f
  CacheCreationInputTokenCostAbove200 :: 'f
  CacheReadInputTokenCost :: 'f
  InputCostPerTokenAbove200k :: 'f
  InputCostPerTokenAbove128k :: 'f
  OutputCostPerTokenAbove200k :: 'f

record CacheCreationDetail =
  Ephemeral5mTokens :: go_int
  Ephemeral1hTokens :: go_int

text \<open>\<open>CacheCreation\<close> is a pointer in the source; \<open>None\<close> is \<^verbatim>\<open>nil\<close>.\<close>

record UsageSnapshot =
  InputTokens :: go_int
  OutputTokens :: go_int
  CacheCreateTokens :: go_int
  CacheReadTokens :: go_int
  CacheCreation :: "CacheCreationDetail option"

record 'f CostBreakdown =
  InputCost :: 'f
  OutputCost :: 'f
  CacheCreateCost :: 'f
  CacheReadCost :: 'f
  Ephemeral5mCost :: 'f
  Ephemeral1hCost :: 'f
  TotalCost :: 'f
  HasPricing :: bool
  IsLongContext :: bool

record 'f LongContextPricing =
  Input :: 'f
  Output :: 'f

text \<open>
  \<open>pricingMap\<close> holds pointers to entries that are written once, when the service is
  built, and never again: the entries themselves stand for the pointers, and a lookup
  that misses is the \<^verbatim>\<open>nil\<close> pointer.
\<close>

record 'f Service =
  pricingMap :: "(string, 'f PricingEntry) mapping"
  normalized :: "(string, string) mapping"
  ephemeral1h :: "(string, 'f) mapping"
  longContexts :: "(string, 'f LongContextPricing) mapping"

subsection \<open>What the language and its library supply\<close>

text \<open>
  \<^item> \<open>f64_of_int n\<close> is the conversion \<^verbatim>\<open>float64(n)\<close>;
  \<^item> \<open>f64_lit q\<close> is the \<^verbatim>\<open>float64\<close> constant that the decimal literal \<open>q\<close> denotes
    (\<open>f64_lit 0\<close> is also the zero value of the type);
  \<^item> \<open>f64_mul\<close>, \<open>f64_add\<close> are \<^verbatim>\<open>*\<close> and \<^verbatim>\<open>+\<close>; \<open>f64_gt a b\<close> is \<^verbatim>\<open>a > b\<close> and
    \<open>f64_eq a b\<close> is \<^verbatim>\<open>a == b\<close>;
  \<^item> \<open>Unmarshal data\<close> is \<^verbatim>\<open>json.Unmarshal(data, &raw)\<close> at
    \<^verbatim>\<open>raw map[string]PricingEntry\<close>: \<open>None\<close> when it returns an error, the map otherwise.
\<close>

record 'f golib =
  f64_of_int :: "int \<Rightarrow> 'f"
  f64_lit :: "rat \<Rightarrow> 'f"
  f64_mul :: "'f \<Rightarrow> 'f \<Rightarrow> 'f"
  f64_add :: "'f \<Rightarrow> 'f \<Rightarrow> 'f"
  f64_gt :: "'f \<Rightarrow> 'f \<Rightarrow> bool"
  f64_eq :: "'f \<Rightarrow> 'f \<Rightarrow> bool"
  Unmarshal :: "string \<Rightarrow> (string, 'f PricingEntry) mapping option"

text \<open>\<open>range_order m keys\<close>: \<open>keys\<close> is an order in which a loop may visit the map \<open>m\<close>.\<close>

definition range_order :: "('k, 'v) mapping \<Rightarrow> 'k list \<Rightarrow> bool" where
  "range_order m keys \<longleftrightarrow> distinct keys \<and> set keys = Mapping.keys m"

text \<open>The zero values \<^verbatim>\<open>PricingEntry{}\<close>, \<^verbatim>\<open>LongContextPricing{}\<close> and \<^verbatim>\<open>CostBreakdown{}\<close>.\<close>

definition zeroPricingEntry :: "'f golib \<Rightarrow> 'f PricingEntry" where
  "zeroPricingEntry G =
     \<lparr>InputCostPerToken = f64_lit G 0, OutputCostPerToken = f64_lit G 0,
      CacheCreationInputTokenCost = f64_lit G 0,
      CacheCreationInputTokenCostAbove1Hr = f64_lit G 0,
      CacheCreationInputTokenCostAbove200 = f64_lit G 0,
      CacheReadInputTokenCost = f64_lit G 0,
      InputCostPerTokenAbove200k = f64_lit G 0,
      InputCostPerTokenAbove128k = f64_lit G 0,
      OutputCostPerTokenAbove200k = f64_lit G 0\<rparr>"

definition zeroLongContextPricing :: "'f golib \<Rightarrow> 'f LongContextPricing" where
  "zeroLongContextPricing G = \<lparr>Input = f64_lit G 0, Output = f64_lit G 0\<rparr>"

definition zeroCostBreakdown :: "'f golib \<Rightarrow> 'f CostBreakdown" where
  "zeroCostBreakdown G =
     \<lparr>InputCost = f64_lit G 0, OutputCost = f64_lit G 0, CacheCreateCost = f64_lit G 0,
      CacheReadCost = f64_lit G 0, Ephemeral5mCost = f64_lit G 0,
      Ephemeral1hCost = f64_lit G 0, TotalCost = f64_lit G 0,
      HasPricing = False, IsLongContext = False\<rparr>"

section \<open>price.go\<close>

subsection \<open>Names\<close>

definition normalizeName :: "string \<Rightarrow> string" where
  "normalizeName name = nameReplacer (ToLower name)"

text \<open>
  The loop of \<^verbatim>\<open>stripRegionPrefix\<close> over its list of prefixes. The slice
  \<^verbatim>\<open>name[len(prefix):]\<close> is in range, \<open>ToLower\<close> keeping the length.
\<close>

fun stripFirstPrefix :: "string \<Rightarrow> string list \<Rightarrow> string" where
  "stripFirstPrefix name [] = name"
| "stripFirstPrefix name (pre # rest) =
     (if HasPrefix (ToLower name) pre then drop (length pre) name
      else stripFirstPrefix name rest)"

definition stripRegionPrefix :: "string \<Rightarrow> string" where
  "stripRegionPrefix name = stripFirstPrefix name [''us.'', ''eu.'', ''apac.'']"

subsection \<open>Resolution of a model name\<close>

text \<open>
  The last loop of \<^verbatim>\<open>getPricing\<close>, \<^verbatim>\<open>for key, entry := range s.pricingMap\<close>, in the
  order \<open>keys\<close> of this execution. A loop over a map visits the keys of the map only: a
  key of the list that the map does not hold is passed over.
\<close>

fun scanPricing ::
  "(string, 'e) mapping \<Rightarrow> string \<Rightarrow> string list \<Rightarrow> 'e option \<times> bool" where
  "scanPricing m normalizedTarget [] = (None, False)"
| "scanPricing m normalizedTarget (key # keys) =
     (case Mapping.lookup m key of
        None \<Rightarrow> scanPricing m normalizedTarget keys
      | Some entry \<Rightarrow>
          (let normKey = normalizeName key in
           if Contains normKey normalizedTarget \<or> Contains normalizedTarget normKey
           then (Some entry, True)
           else scanPricing m normalizedTarget keys))"

definition getPricing ::
  "'f Service \<Rightarrow> string \<Rightarrow> string list \<Rightarrow> 'f PricingEntry option \<times> bool" where
  "getPricing s model scanOrder =
     (if model = [] then (None, False)
      else case Mapping.lookup (pricingMap s) model of
        Some entry \<Rightarrow> (Some entry, True)
      | None \<Rightarrow>
     (case (if model = ''gpt-5-codex'' then Mapping.lookup (pricingMap s) ''gpt-5''
            else None) of
        Some entry \<Rightarrow> (Some entry, True)
      | None \<Rightarrow>
     (let withoutRegion = stripRegionPrefix model in
      case Mapping.lookup (pricingMap s) withoutRegion of
        Some entry \<Rightarrow> (Some entry, True)
      | None \<Rightarrow>
     (let withoutProvider = TrimPrefix withoutRegion ''anthropic.'' in
      case Mapping.lookup (pricingMap s) withoutProvider of
        Some entry \<Rightarrow> (Some entry, True)
      | None \<Rightarrow>
     (let normalizedTarget = normalizeName model in
      case Mapping.lookup (normalized s) normalizedTarget of
        Some key \<Rightarrow> (Mapping.lookup (pricingMap s) key, True)
      | None \<Rightarrow> scanPricing (pricingMap s) normalizedTarget scanOrder)))))"

subsection \<open>Tiers and cache tokens\<close>

text \<open>
  \<^verbatim>\<open>for _, tier := range s.longContexts { return tier, true }\<close> returns at the first key
  visited; \<open>len(s.longContexts) > 0\<close> is \<open>\<not> Mapping.is_empty\<close>.
\<close>

fun firstTier ::
  "'f golib \<Rightarrow> (string, 'f LongContextPricing) mapping \<Rightarrow> string list \<Rightarrow>
   'f LongContextPricing \<times> bool" where
  "firstTier G m [] = (zeroLongContextPricing G, False)"
| "firstTier G m (key # keys) =
     (case Mapping.lookup m key of
        Some tier \<Rightarrow> (tier, True)
      | None \<Rightarrow> firstTier G m keys)"

definition longContextTier ::
  "'f golib \<Rightarrow> 'f Service \<Rightarrow> string \<Rightarrow> UsageSnapshot \<Rightarrow> string list \<Rightarrow>
   'f LongContextPricing \<times> bool" where
  "longContextTier G s model usage tierOrder =
     (let totalInput = InputTokens usage + CacheCreateTokens usage + CacheReadTokens usage in
      if Contains (ToLower model) ''[1m]'' \<and> 200000 <s totalInput
         \<and> \<not> Mapping.is_empty (longContexts s)
      then case Mapping.lookup (longContexts s) model of
             Some tier \<Rightarrow> (tier, True)
           | None \<Rightarrow> firstTier G (longContexts s) tierOrder
      else (zeroLongContextPricing G, False))"

definition getEphemeral1hPricing :: "'f golib \<Rightarrow> 'f Service \<Rightarrow> string \<Rightarrow> 'f" where
  "getEphemeral1hPricing G s model =
     (case Mapping.lookup (ephemeral1h s) model of
        Some price \<Rightarrow> price
      | None \<Rightarrow>
          (let name = ToLower model in
           if Contains name ''opus'' then f64_lit G 0.00003
           else if Contains name ''sonnet'' then f64_lit G 0.000006
           else if Contains name ''haiku'' then f64_lit G 0.0000016
           else f64_lit G 0))"

definition ensureCachePricing :: "'f golib \<Rightarrow> 'f PricingEntry \<Rightarrow> 'f PricingEntry" where
  "ensureCachePricing G entry =
     (let entry =
        (if f64_eq G (CacheCreationInputTokenCost entry) (f64_lit G 0)
            \<and> f64_gt G (InputCostPerToken entry) (f64_lit G 0)
         then entry\<lparr>CacheCreationInputTokenCost :=
                      f64_mul G (InputCostPerToken entry) (f64_lit G 1.25)\<rparr>
         else entry)
      in if f64_eq G (CacheReadInputTokenCost entry) (f64_lit G 0)
            \<and> f64_gt G (InputCostPerToken entry) (f64_lit G 0)
         then entry\<lparr>CacheReadInputTokenCost :=
                      f64_mul G (InputCostPerToken entry) (f64_lit G 0.1)\<rparr>
         else entry)"

definition resolveCacheTokens :: "UsageSnapshot \<Rightarrow> go_int \<times> go_int" where
  "resolveCacheTokens usage =
     (case CacheCreation usage of
        None \<Rightarrow> (CacheCreateTokens usage, 0)
      | Some detail \<Rightarrow>
          (let five = Ephemeral5mTokens detail;
               one = Ephemeral1hTokens detail;
               remaining = CacheCreateTokens usage - five - one;
               five = (if 0 <s remaining then five + remaining else five);
               five = (if five <s 0 then 0 else five);
               one = (if one <s 0 then 0 else one)
           in (five, one)))"

subsection \<open>The cost of one request\<close>

text \<open>The receiver \<open>s\<close> is a pointer: \<open>None\<close> is the \<^verbatim>\<open>nil\<close> service.\<close>

definition CalculateCost ::
  "'f golib \<Rightarrow> 'f Service option \<Rightarrow> string \<Rightarrow> UsageSnapshot \<Rightarrow>
   string list \<Rightarrow> string list \<Rightarrow> 'f CostBreakdown" where
  "CalculateCost G sp model usage scanOrder tierOrder =
     (case sp of
        None \<Rightarrow> zeroCostBreakdown G
      | Some s \<Rightarrow>
     (if model = [] then zeroCostBreakdown G
      else
       let (entry, hasPricing) = getPricing s model scanOrder;
           breakdown = (zeroCostBreakdown G)\<lparr>HasPricing := hasPricing\<rparr>
       in if entry = None \<and> \<not> Contains (ToLower model) ''[1m]'' then breakdown
          else
           let (longTier, useLong) = longContextTier G s model usage tierOrder;
               entry = (case entry of None \<Rightarrow> zeroPricingEntry G | Some e \<Rightarrow> e);
               breakdown =
                 (if useLong
                  then breakdown
                    \<lparr>IsLongContext := True,
                     InputCost := f64_mul G (f64_of_int G (sint (InputTokens usage)))
                                    (Input longTier),
                     OutputCost := f64_mul G (f64_of_int G (sint (OutputTokens usage)))
                                     (Output longTier)\<rparr>
                  else breakdown
                    \<lparr>InputCost := f64_mul G (f64_of_int G (sint (InputTokens usage)))
                                    (InputCostPerToken entry),
                     OutputCost := f64_mul G (f64_of_int G (sint (OutputTokens usage)))
                                     (OutputCostPerToken entry)\<rparr>);
               (cacheCreateTokens, cache1hTokens) = resolveCacheTokens usage;
               cache5mCost = f64_mul G (f64_of_int G (sint cacheCreateTokens))
                               (CacheCreationInputTokenCost entry);
               cache1hCost = f64_mul G (f64_of_int G (sint cache1hTokens))
                               (getEphemeral1hPricing G s model);
               breakdown = breakdown
                 \<lparr>Ephemeral5mCost := cache5mCost,
                  Ephemeral1hCost := cache1hCost,
                  CacheCreateCost := f64_add G cache5mCost cache1hCost,
                  CacheReadCost := f64_mul G (f64_of_int G (sint (CacheReadTokens usage)))
                                     (CacheReadInputTokenCost entry)\<rparr>;
               breakdown = breakdown
                 \<lparr>TotalCost :=
                    f64_add G
                      (f64_add G (f64_add G (InputCost breakdown) (OutputCost breakdown))
                         (CacheCreateCost breakdown))
                      (CacheReadCost breakdown)\<rparr>
           in if f64_gt G (TotalCost breakdown) (f64_lit G 0)
              then breakdown\<lparr>HasPricing := True\<rparr>
              else breakdown))"

subsection \<open>Building a service\<close>

definition buildEphemeral1hPricing :: "'f golib \<Rightarrow> (string, 'f) mapping" where
  "buildEphemeral1hPricing G = Mapping.of_alist
     [(''claude-opus-4-1'', f64_lit G 0.00003),
      (''claude-opus-4-1-20250805'', f64_lit G 0.00003),
      (''claude-opus-4'', f64_lit G 0.00003),
      (''claude-opus-4-20250514'', f64_lit G 0.00003),
      (''claude-opus-4-5-20251101'', f64_lit G 0.00003),
      (''claude-3-opus'', f64_lit G 0.00003),
      (''claude-3-opus-latest'', f64_lit G 0.00003),
      (''claude-3-opus-20240229'', f64_lit G 0.00003),
      (''claude-3-5-sonnet'', f64_lit G 0.000006),
      (''claude-3-5-sonnet-latest'', f64_lit G 0.000006),
      (''claude-3-5-sonnet-20241022'', f64_lit G 0.000006),
      (''claude-3-5-sonnet-20240620'', f64_lit G 0.000006),
      (''claude-3-sonnet'', f64_lit G 0.000006),
      (''claude-3-sonnet-20240307'', f64_lit G 0.000006),
      (''claude-sonnet-3'', f64_lit G 0.000006),
      (''claude-sonnet-3-5'', f64_lit G 0.000006),
      (''claude-sonnet-3-7'', f64_lit G 0.000006),
      (''claude-sonnet-4'', f64_lit G 0.000006),
      (''claude-sonnet-4-20250514'', f64_lit G 0.000006),
      (''claude-3-5-haiku'', f64_lit G 0.0000016),
      (''claude-3-5-haiku-latest'', f64_lit G 0.0000016),
      (''claude-3-5-haiku-20241022'', f64_lit G 0.0000016),
      (''claude-3-haiku'', f64_lit G 0.0000016),
      (''claude-3-haiku-20240307'', f64_lit G 0.0000016),
      (''claude-haiku-3'', f64_lit G 0.0000016),
      (''claude-haiku-3-5'', f64_lit G 0.0000016)]"

definition buildLongContextPricing ::
  "'f golib \<Rightarrow> (string, 'f LongContextPricing) mapping" where
  "buildLongContextPricing G = Mapping.of_alist
     [(''claude-sonnet-4-20250514[1m]'',
       \<lparr>Input = f64_lit G 0.000006, Output = f64_lit G 0.0000225\<rparr>)]"

text \<open>
  The loop \<^verbatim>\<open>for key, entry := range raw\<close> of \<^verbatim>\<open>NewServiceFromData\<close>, on the two maps
  \<open>pricing\<close> and \<open>normalized\<close> that it fills (\<open>index\<close> is the local \<open>normalized\<close>).
\<close>

fun buildTables ::
  "'f golib \<Rightarrow> (string, 'f PricingEntry) mapping \<Rightarrow> string list \<Rightarrow>
   (string, 'f PricingEntry) mapping \<times> (string, string) mapping \<Rightarrow>
   (string, 'f PricingEntry) mapping \<times> (string, string) mapping" where
  "buildTables G raw [] (pricing, index) = (pricing, index)"
| "buildTables G raw (key # keys) (pricing, index) =
     (case Mapping.lookup raw key of
        None \<Rightarrow> buildTables G raw keys (pricing, index)
      | Some entry \<Rightarrow>
          (let item = ensureCachePricing G entry;
               pricing = Mapping.update key item pricing;
               norm = normalizeName key;
               index = (if Mapping.lookup index norm = None
                        then Mapping.update norm key index
                        else index)
           in buildTables G raw keys (pricing, index)))"

datatype error = ParseError

definition NewServiceFromData ::
  "'f golib \<Rightarrow> string \<Rightarrow> string list \<Rightarrow> error + 'f Service" where
  "NewServiceFromData G data rawOrder =
     (case Unmarshal G data of
        None \<Rightarrow> Inl ParseError
      | Some raw \<Rightarrow>
          (let (pricing, index) =
                 buildTables G raw rawOrder (Mapping.empty, Mapping.empty)
           in Inr \<lparr>pricingMap = pricing,
                   normalized = index,
                   ephemeral1h = buildEphemeral1hPricing G,
                   longContexts = buildLongContextPricing G\<rparr>))"

section \<open>The retry wrapper (package services)\<close>

text \<open>
  \<^verbatim>\<open>*xrequest.Response\<close> is read through three accessors only: \<^verbatim>\<open>StatusCode()\<close>,
  \<^verbatim>\<open>Header().Get("Content-Type")\<close> and \<^verbatim>\<open>Bytes()\<close>. A response is the record of what they
  return; \<open>None\<close> is the \<^verbatim>\<open>nil\<close> response. An \<^verbatim>\<open>error\<close> is read through \<^verbatim>\<open>Error()\<close>
  only: it is its message, and \<open>None\<close> is \<^verbatim>\<open>nil\<close>.
\<close>

record Response =
  StatusCode :: int
  ContentType :: string
  Bytes :: string

type_synonym outcome = "Response option \<times> string option"

datatype RetryErrorType = RateLimitError | NetworkError | ServerError | UnknownError

definition MaxRetryAttempts :: nat where
  "MaxRetryAttempts = 3"

text \<open>A \<^verbatim>\<open>time.Duration\<close> counts nanoseconds; \<^verbatim>\<open>time.Second\<close> is \<open>10\<^sup>9\<close> of them.\<close>

definition RetryInterval :: int where
  "RetryInterval = 2 * 1000000000"

definition IsRateLimitError :: "Response option \<Rightarrow> bool" where
  "IsRateLimitError resp =
     (case resp of
        None \<Rightarrow> False
      | Some r \<Rightarrow>
          if StatusCode r \<noteq> 200 then False
          else if \<not> Contains (ToLower (ContentType r)) ''text/event-stream'' then False
          else Contains (Bytes r) ''Rate limit error, please wait before trying again'')"

definition networkErrorPatterns :: "string list" where
  "networkErrorPatterns =
     [''timeout'', ''connection refused'', ''connection reset'', ''no such host'',
      ''network is unreachable'', ''context deadline exceeded'']"

definition IsNetworkError :: "string option \<Rightarrow> bool" where
  "IsNetworkError err =
     (case err of
        None \<Rightarrow> False
      | Some msg \<Rightarrow>
          (let errStr = ToLower msg
           in list_ex (\<lambda>pattern. Contains errStr pattern) networkErrorPatterns))"

definition IsServerError :: "Response option \<Rightarrow> bool" where
  "IsServerError resp =
     (case resp of
        None \<Rightarrow> False
      | Some r \<Rightarrow>
          (let status = StatusCode r in status = 502 \<or> status = 503 \<or> status = 504))"

definition ShouldRetry :: "Response option \<Rightarrow> string option \<Rightarrow> bool \<times> RetryErrorType" where
  "ShouldRetry resp err =
     (if IsNetworkError err then (True, NetworkError)
      else if resp \<noteq> None \<and> IsRateLimitError resp then (True, RateLimitError)
      else if resp \<noteq> None \<and> IsServerError resp then (True, ServerError)
      else (False, UnknownError))"

text \<open>
  What \<^verbatim>\<open>RetryableRequest\<close> does to the world is a trace of events: an invocation of the
  request function, or a call of \<^verbatim>\<open>time.Sleep\<close> with its duration (the lines it prints are
  left out). The request function is any Go closure: \<open>requestFunc k\<close> is what it returns
  at its invocation number \<open>k\<close>, counted from \<open>0\<close>.
\<close>

datatype event = Invoke | Sleep int

definition invoke :: "(nat \<Rightarrow> outcome) \<Rightarrow> event list \<Rightarrow> outcome \<times> event list" where
  "invoke requestFunc trace = (requestFunc (count_list trace Invoke), trace @ [Invoke])"

definition sleep :: "int \<Rightarrow> event list \<Rightarrow> event list" where
  "sleep d trace = trace @ [Sleep d]"

text \<open>The loop \<^verbatim>\<open>for attempt := 1; attempt <= MaxRetryAttempts; attempt++\<close>.\<close>

function retryLoop ::
  "(nat \<Rightarrow> outcome) \<Rightarrow> nat \<Rightarrow> outcome \<Rightarrow> event list \<Rightarrow> outcome \<times> event list" where
  "retryLoop requestFunc attempt lastOut trace =
     (if attempt \<le> MaxRetryAttempts
      then
        (case invoke requestFunc (sleep RetryInterval trace) of
           (out, trace) \<Rightarrow>
             (case ShouldRetry (fst out) (snd out) of
                (shouldRetry, errorType) \<Rightarrow>
                  if \<not> shouldRetry then (out, trace)
                  else retryLoop requestFunc (attempt + 1) out trace))
      else (lastOut, trace))"
  by pat_completeness auto
termination
  by (relation "measure (\<lambda>(requestFunc, attempt, lastOut, trace). MaxRetryAttempts + 1 - attempt)")
     auto

declare retryLoop.simps [simp del]

definition RetryableRequest ::
  "(nat \<Rightarrow> outcome) \<Rightarrow> string \<Rightarrow> outcome \<times> event list" where
  "RetryableRequest requestFunc providerName =
     (case invoke requestFunc [] of
        (lastOut, trace) \<Rightarrow>
          (case ShouldRetry (fst lastOut) (snd lastOut) of
             (shouldRetry, errorType) \<Rightarrow>
               if \<not> shouldRetry then (lastOut, trace)
               else retryLoop requestFunc 1 lastOut trace))"

section \<open>Notions used to state the properties\<close>

text \<open>\<open>retryable requestFunc k\<close>: the outcome of invocation \<open>k\<close> is one that \<open>ShouldRetry\<close> retries.\<close>

definition retryable :: "(nat \<Rightarrow> outcome) \<Rightarrow> nat \<Rightarrow> bool" where
  "retryable requestFunc k = fst (ShouldRetry (fst (requestFunc k)) (snd (requestFunc k)))"

text \<open>The trace of one invocation followed by \<open>n\<close> retries, each after one sleep.\<close>

definition retryTrace :: "nat \<Rightarrow> event list" where
  "retryTrace n = Invoke # concat (replicate n [Sleep RetryInterval, Invoke])"

text \<open>A request function that meets a gateway error twice and then succeeds.\<close>

definition flakyRequest :: "nat \<Rightarrow> outcome" where
  "flakyRequest k =
     (if k < 2 then (Some \<lparr>StatusCode = 503, ContentType = ''text/html'', Bytes = ''busy''\<rparr>, None)
      else (Some \<lparr>StatusCode = 200, ContentType = ''application/json'', Bytes = ''ok''\<rparr>, None))"

text \<open>
  \<open>priced\<close>: \<open>CalculateCost\<close> gets past its two early returns, for a service that is not
  nil. \<open>pricedEntry\<close>: the entry it then works with, the zero entry when none was
  resolved.
\<close>

definition priced :: "'f Service \<Rightarrow> string \<Rightarrow> string list \<Rightarrow> bool" where
  "priced s model scanOrder \<longleftrightarrow>
     model \<noteq> [] \<and> (fst (getPricing s model scanOrder) \<noteq> None \<or> Contains (ToLower model) ''[1m]'')"

definition pricedEntry ::
  "'f golib \<Rightarrow> 'f Service \<Rightarrow> string \<Rightarrow> string list \<Rightarrow> 'f PricingEntry" where
  "pricedEntry G s model scanOrder =
     (case fst (getPricing s model scanOrder) of None \<Rightarrow> zeroPricingEntry G | Some e \<Rightarrow> e)"

section \<open>Examples\<close>

text \<open>
  An interpretation to compute examples with: the rationals with their exact
  arithmetic in place of \<^verbatim>\<open>float64\<close>, and for \<^verbatim>\<open>json.Unmarshal\<close> a table of the files
  that occur, each with the entries it parses to. The examples compare costs that
  differ in \<^verbatim>\<open>float64\<close> as they do in the rationals.
\<close>

definition ratlib :: "(string \<times> (string \<times> rat PricingEntry) list) list \<Rightarrow> rat golib" where
  "ratlib files =
     \<lparr>f64_of_int = of_int, f64_lit = (\<lambda>q. q), f64_mul = (*), f64_add = (+),
      f64_gt = (\<lambda>a b. b < a), f64_eq = (=),
      Unmarshal = (\<lambda>data. map_option Mapping.of_alist (map_of files data))\<rparr>"

text \<open>
  What \<^verbatim>\<open>json.Unmarshal\<close> makes of an object with the two fields
  \<^verbatim>\<open>input_cost_per_token\<close> and \<^verbatim>\<open>output_cost_per_token\<close>: the other fields keep their
  zero value.
\<close>

definition basicEntry :: "rat \<Rightarrow> rat \<Rightarrow> rat PricingEntry" where
  "basicEntry input output =
     \<lparr>InputCostPerToken = input, OutputCostPerToken = output,
      CacheCreationInputTokenCost = 0,
      CacheCreationInputTokenCostAbove1Hr = 0,
      CacheCreationInputTokenCostAbove200 = 0,
      CacheReadInputTokenCost = 0,
      InputCostPerTokenAbove200k = 0,
      InputCostPerTokenAbove128k = 0,
      OutputCostPerTokenAbove200k = 0\<rparr>"

definition usageOf :: "go_int \<Rightarrow> go_int \<Rightarrow> go_int \<Rightarrow> go_int \<Rightarrow> UsageSnapshot" where
  "usageOf input output cacheCreate cacheRead =
     \<lparr>InputTokens = input, OutputTokens = output, CacheCreateTokens = cacheCreate,
      CacheReadTokens = cacheRead, CacheCreation = None\<rparr>"

definition sonnetJSON :: string where
  \<open>sonnetJSON = ''{"claude-sonnet-4-20250514": {"input_cost_per_token": 3e-06, "output_cost_per_token": 1.5e-05}}''\<close>

definition sonnetG :: "rat golib" where
  "sonnetG = ratlib [(sonnetJSON, [(''claude-sonnet-4-20250514'', basicEntry 0.000003 0.000015)])]"

definition sonnetService :: "rat Service" where
  "sonnetService = projr (NewServiceFromData sonnetG sonnetJSON [''claude-sonnet-4-20250514''])"

(*EXAMPLES*)

section \<open>Properties of the strings\<close>

lemma Contains_sublist: "Contains s substr \<longleftrightarrow> sublist substr s"
  by (induction s) (auto simp: sublist_Cons_right)

lemma length_ToLower: "length (ToLower s) = length s"
  by (simp add: ToLower_def)

lemma HasPrefix_ToLower_length: "HasPrefix (ToLower name) pre \<Longrightarrow> length pre \<le> length name"
  by (metis HasPrefix_def length_ToLower prefix_length_le)

section \<open>The cost of one request\<close>

lemma CalculateCost_early:
  assumes "model \<noteq> []" "\<not> priced s model scanOrder"
  shows "CalculateCost G (Some s) model usage scanOrder tierOrder =
           (zeroCostBreakdown G)\<lparr>HasPricing := snd (getPricing s model scanOrder)\<rparr>"
  using assms by (auto simp: CalculateCost_def priced_def Let_def split: prod.splits)

lemma CalculateCost_priced:
  assumes "priced s model scanOrder"
  shows "CalculateCost G (Some s) model usage scanOrder tierOrder =
    (let tier = longContextTier G s model usage tierOrder;
         e = pricedEntry G s model scanOrder;
         tokens = resolveCacheTokens usage;
         input = f64_mul G (f64_of_int G (sint (InputTokens usage)))
                   (if snd tier then Input (fst tier) else InputCostPerToken e);
         output = f64_mul G (f64_of_int G (sint (OutputTokens usage)))
                   (if snd tier then Output (fst tier) else OutputCostPerToken e);
         c5 = f64_mul G (f64_of_int G (sint (fst tokens))) (CacheCreationInputTokenCost e);
         c1 = f64_mul G (f64_of_int G (sint (snd tokens))) (getEphemeral1hPricing G s model);
         cread = f64_mul G (f64_of_int G (sint (CacheReadTokens usage))) (CacheReadInputTokenCost e);
         total = f64_add G (f64_add G (f64_add G input output) (f64_add G c5 c1)) cread
     in \<lparr>InputCost = input, OutputCost = output, CacheCreateCost = f64_add G c5 c1,
         CacheReadCost = cread, Ephemeral5mCost = c5, Ephemeral1hCost = c1, TotalCost = total,
         HasPricing = (snd (getPricing s model scanOrder) \<or> f64_gt G total (f64_lit G 0)),
         IsLongContext = snd tier\<rparr>)"
  using assms
  by (auto simp: CalculateCost_def priced_def pricedEntry_def Let_def zeroCostBreakdown_def
      split: prod.splits option.splits)


lemma firstTier_found:
  "\<exists>key\<in>set ks. Mapping.lookup m key \<noteq> None \<Longrightarrow>
   \<exists>key tier. firstTier G m ks = (tier, True) \<and> Mapping.lookup m key = Some tier"
  by (induction ks) (auto split: option.splits)

lemma range_order_nonempty:
  assumes "range_order m ks" "\<not> Mapping.is_empty m"
  shows "\<exists>key\<in>set ks. Mapping.lookup m key \<noteq> None"
proof -
  from assms obtain key where "key \<in> Mapping.keys m"
    by (auto simp: Mapping.is_empty_def)
  with assms(1) show ?thesis
    by (auto simp: range_order_def keys_dom_lookup)
qed

lemma longContextTier_cases:
  assumes "Contains (ToLower model) ''[1m]''" "\<not> Mapping.is_empty (longContexts s)"
    "range_order (longContexts s) tierOrder"
  shows "if 200000 <s InputTokens usage + CacheCreateTokens usage + CacheReadTokens usage
         then \<exists>tier. longContextTier G s model usage tierOrder = (tier, True)
                \<and> (case Mapping.lookup (longContexts s) model of
                      Some exact \<Rightarrow> tier = exact
                    | None \<Rightarrow> \<exists>key. Mapping.lookup (longContexts s) key = Some tier)
         else longContextTier G s model usage tierOrder = (zeroLongContextPricing G, False)"
  using assms firstTier_found[OF range_order_nonempty[OF assms(3,2)], of G]
  by (auto simp: longContextTier_def Let_def split: option.splits)

text \<open>
  Claim C1. For a model whose lower-cased name contains \<^verbatim>\<open>[1m]\<close> and a service with a
  long-context table that is not empty, \<open>CalculateCost\<close> applies the long-context tier
  if and only if \<open>InputTokens + CacheCreateTokens + CacheReadTokens > 200000\<close> (the sum
  being the one the code computes, on \<^verbatim>\<open>int\<close>): not at a total of \<open>200000\<close>, and at every
  total from \<open>200001\<close> on. Without the tier the input and output costs are the token
  counts times the base rates of the entry; with it they are the token counts times
  the rates of the tier, which is the entry of the table under the model name when
  there is one and some entry of the table otherwise.
\<close>

theorem long_context_threshold:
  assumes "Contains (ToLower model) ''[1m]''"
    and "\<not> Mapping.is_empty (longContexts s)"
    and "range_order (longContexts s) tierOrder"
  shows
    "(let total = InputTokens usage + CacheCreateTokens usage + CacheReadTokens usage;
          b = CalculateCost G (Some s) model usage scanOrder tierOrder;
          entry = pricedEntry G s model scanOrder
      in (IsLongContext b \<longleftrightarrow> 200000 <s total)
       \<and> (total = 200000 \<longrightarrow> \<not> IsLongContext b)
       \<and> (200001 \<le>s total \<longrightarrow> IsLongContext b)
       \<and> (\<not> IsLongContext b \<longrightarrow>
             InputCost b = f64_mul G (f64_of_int G (sint (InputTokens usage)))
                             (InputCostPerToken entry)
           \<and> OutputCost b = f64_mul G (f64_of_int G (sint (OutputTokens usage)))
                              (OutputCostPerToken entry))
       \<and> (IsLongContext b \<longrightarrow>
            (\<exists>tier. (case Mapping.lookup (longContexts s) model of
                        Some exact \<Rightarrow> tier = exact
                      | None \<Rightarrow> \<exists>key. Mapping.lookup (longContexts s) key = Some tier)
               \<and> InputCost b = f64_mul G (f64_of_int G (sint (InputTokens usage))) (Input tier)
               \<and> OutputCost b = f64_mul G (f64_of_int G (sint (OutputTokens usage)))
                                  (Output tier))))"
proof -
  from assms(1) have "model \<noteq> []" by (auto simp: ToLower_def)
  with assms(1) have p: "priced s model scanOrder" by (simp add: priced_def)
  have le: "200001 \<le>s x \<longleftrightarrow> 200000 <s x" for x :: go_int
    by (simp add: word_sle_eq word_sless_alt) arith
  show ?thesis
    using longContextTier_cases[OF assms, of usage G]
    by (auto simp: CalculateCost_priced[OF p] Let_def le split: if_splits)
qed

theorem long_context_threshold_witness:
  "Contains (ToLower ''claude-sonnet-4-20250514[1m]'') ''[1m]''
   \<and> \<not> Mapping.is_empty (longContexts sonnetService)
   \<and> range_order (longContexts sonnetService) [''claude-sonnet-4-20250514[1m]'']
   \<and> IsLongContext (CalculateCost sonnetG (Some sonnetService) ''claude-sonnet-4-20250514[1m]''
         (usageOf 150000 1000 20000 30001)
         [''claude-sonnet-4-20250514''] [''claude-sonnet-4-20250514[1m]''])
   \<and> \<not> IsLongContext (CalculateCost sonnetG (Some sonnetService) ''claude-sonnet-4-20250514[1m]''
         (usageOf 150000 1000 20000 30000)
         [''claude-sonnet-4-20250514''] [''claude-sonnet-4-20250514[1m]''])"
proof -
  have h1: "Contains (ToLower ''claude-sonnet-4-20250514[1m]'') ''[1m]''" by code_simp
  have h2: "\<not> Mapping.is_empty (longContexts sonnetService)" by code_simp
  have h3: "range_order (longContexts sonnetService) [''claude-sonnet-4-20250514[1m]'']"
    by code_simp
  note T = long_context_threshold[OF h1 h2 h3, of _ sonnetG "[''claude-sonnet-4-20250514'']"]
  from T[of "usageOf 150000 1000 20000 30001"] T[of "usageOf 150000 1000 20000 30000"] h1 h2 h3
  show ?thesis by (simp add: Let_def usageOf_def)
qed

(*PRICING*)

section \<open>The retry wrapper\<close>

lemma count_retryTrace: "count_list (retryTrace n) Invoke = Suc n"
  by (induction n) (auto simp: retryTrace_def)

lemma retryTrace_Suc: "retryTrace (Suc n) = retryTrace n @ [Sleep RetryInterval, Invoke]"
  by (induction n) (auto simp: retryTrace_def)

lemma retryLoop_unfold:
  "retryLoop rf (Suc n) lastOut (retryTrace n) =
     (if Suc n \<le> MaxRetryAttempts
      then if \<not> retryable rf (Suc n) then (rf (Suc n), retryTrace (Suc n))
           else retryLoop rf (Suc (Suc n)) (rf (Suc n)) (retryTrace (Suc n))
      else (lastOut, retryTrace n))"
  by (subst retryLoop.simps)
     (auto simp: invoke_def sleep_def count_retryTrace retryTrace_Suc retryable_def
           split: prod.splits)

lemma RetryableRequest_unfold:
  "RetryableRequest rf p =
     (if \<not> retryable rf 0 then (rf 0, retryTrace 0)
      else retryLoop rf 1 (rf 0) (retryTrace 0))"
  by (auto simp: RetryableRequest_def invoke_def retryable_def retryTrace_def split: prod.splits)

lemma RetryableRequest_cases:
  "\<exists>n\<le>MaxRetryAttempts. (\<forall>k<n. retryable rf k) \<and> (n < MaxRetryAttempts \<longrightarrow> \<not> retryable rf n)
    \<and> RetryableRequest rf p = (rf n, retryTrace n)"
proof -
  have M: "MaxRetryAttempts = Suc (Suc (Suc 0))" by (simp add: MaxRetryAttempts_def)
  consider (a) "\<not> retryable rf 0"
    | (b) "retryable rf 0" "\<not> retryable rf (Suc 0)"
    | (c) "retryable rf 0" "retryable rf (Suc 0)" "\<not> retryable rf (Suc (Suc 0))"
    | (d) "retryable rf 0" "retryable rf (Suc 0)" "retryable rf (Suc (Suc 0))" by blast
  then show ?thesis
  proof cases
    case a
    then show ?thesis by (intro exI[of _ 0]) (simp add: RetryableRequest_unfold M)
  next
    case b
    then have "RetryableRequest rf p = (rf (Suc 0), retryTrace (Suc 0))"
      using retryLoop_unfold[of rf 0 "rf 0"]
      by (simp add: RetryableRequest_unfold M)
    with b show ?thesis by (intro exI[of _ "Suc 0"]) (simp add: M)
  next
    case c
    then have "RetryableRequest rf p = (rf (Suc (Suc 0)), retryTrace (Suc (Suc 0)))"
      using retryLoop_unfold[of rf 0 "rf 0"] retryLoop_unfold[of rf "Suc 0" "rf (Suc 0)"]
      by (simp add: RetryableRequest_unfold M)
    with c show ?thesis by (intro exI[of _ "Suc (Suc 0)"]) (simp add: M less_Suc_eq)
  next
    case d
    have "RetryableRequest rf p = (rf (Suc (Suc (Suc 0))), retryTrace (Suc (Suc (Suc 0))))"
    proof (cases "retryable rf (Suc (Suc (Suc 0)))")
      case True
      with d show ?thesis
        using retryLoop_unfold[of rf 0 "rf 0"] retryLoop_unfold[of rf "Suc 0" "rf (Suc 0)"]
          retryLoop_unfold[of rf "Suc (Suc 0)" "rf (Suc (Suc 0))"]
          retryLoop_unfold[of rf "Suc (Suc (Suc 0))" "rf (Suc (Suc (Suc 0)))"]
        by (simp add: RetryableRequest_unfold M)
    next
      case False
      with d show ?thesis
        using retryLoop_unfold[of rf 0 "rf 0"] retryLoop_unfold[of rf "Suc 0" "rf (Suc 0)"]
          retryLoop_unfold[of rf "Suc (Suc 0)" "rf (Suc (Suc 0))"]
        by (simp add: RetryableRequest_unfold M)
    qed
    with d show ?thesis by (intro exI[of _ "Suc (Suc (Suc 0))"]) (simp add: M less_Suc_eq)
  qed
qed

lemma ShouldRetry_iff:
  "fst (ShouldRetry resp err) \<longleftrightarrow>
     (\<exists>msg. err = Some msg \<and> (\<exists>pattern\<in>set networkErrorPatterns. Contains (ToLower msg) pattern))
     \<or> (\<exists>r. resp = Some r \<and>
           (StatusCode r = 200 \<and> Contains (ToLower (ContentType r)) ''text/event-stream''
              \<and> Contains (Bytes r) ''Rate limit error, please wait before trying again''
            \<or> StatusCode r = 502 \<or> StatusCode r = 503 \<or> StatusCode r = 504))"
  by (auto simp: ShouldRetry_def IsNetworkError_def IsRateLimitError_def IsServerError_def
        list_ex_iff Let_def split: option.splits)

text \<open>
  Claim C9. \<open>RetryableRequest\<close> invokes the request function once and, as long as the
  outcome is retryable, again after a sleep of two seconds, at most
  \<open>MaxRetryAttempts = 3\<close> more times. With \<open>n\<close> the number of retries made: every
  outcome before the last was retryable; when fewer than three retries were made the
  last outcome is not retryable; the pair returned is the one of the last invocation
  (number \<open>n\<close>); and the trace is one invocation followed by \<open>n\<close> times a sleep of
  \<open>2 * 10\<^sup>9\<close> nanoseconds and an invocation. An outcome is retryable exactly when the
  lower-cased error text contains one of the network patterns, or the response is
  not nil and either has status 200, a content type containing
  \<^verbatim>\<open>text/event-stream\<close> and a body containing the rate-limit marker, or has status 502,
  503 or 504.
\<close>

theorem RetryableRequest_retries_at_most_three:
  "(\<exists>n\<le>3. (\<forall>k<n. retryable requestFunc k) \<and> (n < 3 \<longrightarrow> \<not> retryable requestFunc n)
       \<and> RetryableRequest requestFunc providerName =
           (requestFunc n, Invoke # concat (replicate n [Sleep (2 * 1000000000), Invoke])))
   \<and> (retryable requestFunc k \<longleftrightarrow>
        (\<exists>msg. snd (requestFunc k) = Some msg
           \<and> (\<exists>pattern\<in>set [''timeout'', ''connection refused'', ''connection reset'',
                  ''no such host'', ''network is unreachable'', ''context deadline exceeded''].
                Contains (ToLower msg) pattern))
        \<or> (\<exists>r. fst (requestFunc k) = Some r \<and>
              (StatusCode r = 200 \<and> Contains (ToLower (ContentType r)) ''text/event-stream''
                 \<and> Contains (Bytes r) ''Rate limit error, please wait before trying again''
               \<or> StatusCode r = 502 \<or> StatusCode r = 503 \<or> StatusCode r = 504)))"
  using RetryableRequest_cases[of requestFunc providerName]
    ShouldRetry_iff[of "fst (requestFunc k)" "snd (requestFunc k)"]
  unfolding retryable_def retryTrace_def RetryInterval_def MaxRetryAttempts_def
    networkErrorPatterns_def
  by blast

theorem RetryableRequest_retries_at_most_three_witness:
  "RetryableRequest flakyRequest ''kimi'' =
     (flakyRequest 2, [Invoke, Sleep 2000000000, Invoke, Sleep 2000000000, Invoke])"
proof -
  have r: "retryable flakyRequest 0" "retryable flakyRequest (Suc 0)" "\<not> retryable flakyRequest 2"
    by (simp_all add: retryable_def flakyRequest_def ShouldRetry_def IsNetworkError_def
        IsRateLimitError_def IsServerError_def)
  from RetryableRequest_retries_at_most_three[of flakyRequest "''kimi''" 0]
  obtain n where n: "n \<le> 3" "\<forall>k<n. retryable flakyRequest k"
      "n < 3 \<longrightarrow> \<not> retryable flakyRequest n"
      "RetryableRequest flakyRequest ''kimi'' =
         (flakyRequest n, Invoke # concat (replicate n [Sleep (2 * 1000000000), Invoke]))"
    by blast
  have "n \<noteq> 0"
  proof
    assume "n = 0"
    with n(3) r(1) show False by simp
  qed
  moreover have "n \<noteq> Suc 0"
  proof
    assume "n = Suc 0"
    with n(3) r(2) show False by simp
  qed
  moreover have "n \<noteq> 3"
  proof
    assume "n = 3"
    with n(2) r(3) show False by simp
  qed
  ultimately have "n = 2" using n(1) by arith
  with n(4) show ?thesis by (simp add: numeral_2_eq_2)
qed

end
